theory Spec2Isabelle
  imports Complex_Main
begin

section \<open>SOW manager: billing computation, renewal flags and the SOW list\<close>

text \<open>
  The development follows the TypeScript sources of the SOW manager: the anomaly flow
  (\<^verbatim>\<open>generateBillingAnomalyExplanationFlow\<close>), the billing tab
  (\<^verbatim>\<open>SowBillingTab\<close>), the manager analytics, the SOW card and the page that owns
  the SOW list.

  JavaScript numbers are modelled as real numbers (IEEE rounding, NaN and the infinities
  are left out), counters as natural numbers and integers.

  The sources call the JavaScript \<^verbatim>\<open>Date\<close> object and the date-fns library
  (\<^verbatim>\<open>parseISO\<close>, \<^verbatim>\<open>isBefore\<close>, \<^verbatim>\<open>isEqual\<close>, \<^verbatim>\<open>max\<close>, \<^verbatim>\<open>min\<close>, \<^verbatim>\<open>addMonths\<close>,
  \<^verbatim>\<open>differenceInMonths\<close>), which are not part of the repository. They are modelled
  here: \<^verbatim>\<open>Date\<close> after the definitions of ECMAScript (\<open>Day\<close>, \<open>WeekDay\<close>,
  \<open>LocalTime\<close>, \<open>UTC\<close>, \<open>MakeDay\<close>, \<open>MakeDate\<close>) over the proleptic Gregorian calendar,
  the date-fns functions after the library's algorithms.
\<close>

subsection \<open>Dates and time zones\<close>

text \<open>
  A JavaScript \<^verbatim>\<open>Date\<close> is its time value: the milliseconds since the epoch, in UTC.
  Comparison of two dates is comparison of their time values.
\<close>

type_synonym jsdate = int

definition msPerDay :: int where
  "msPerDay = 86400000"

definition msPerMinute :: int where
  "msPerMinute = 60000"

definition Day :: "int \<Rightarrow> int" where
  "Day t = t div msPerDay"

definition TimeWithinDay :: "int \<Rightarrow> int" where
  "TimeWithinDay t = t mod msPerDay"

text \<open>Day 0 (1 January 1970) was a Thursday; 0 is Sunday, 6 is Saturday.\<close>

definition WeekDay :: "int \<Rightarrow> int" where
  "WeekDay d = (d + 4) mod 7"

text \<open>
  The time zone the code runs in: the offset of standard time, in minutes as
  \<^verbatim>\<open>getTimezoneOffset()\<close> counts them (UTC minus local time), and the instants at which
  daylight saving time, one hour ahead of standard time, is in force.
\<close>

record zone =
  stdOffset :: int
  isDST :: "int \<Rightarrow> bool"

definition getTimezoneOffset :: "zone \<Rightarrow> jsdate \<Rightarrow> int" where
  "getTimezoneOffset z t = stdOffset z - (if isDST z t then 60 else 0)"

text \<open>The local time value of an instant.\<close>

definition LocalTime :: "zone \<Rightarrow> jsdate \<Rightarrow> int" where
  "LocalTime z t = t - getTimezoneOffset z t * msPerMinute"

text \<open>
  The instant of a local time value. A local time that the clocks skip or show twice
  is read with the offset in force before the change, as ECMAScript prescribes: a skipped
  time is read in standard time (and so lands one hour later on the clock), a repeated
  time in daylight saving time.
\<close>

definition UTC :: "zone \<Rightarrow> int \<Rightarrow> jsdate" where
  "UTC z tlocal =
     (if isDST z (tlocal + (stdOffset z - 60) * msPerMinute)
      then tlocal + (stdOffset z - 60) * msPerMinute
      else tlocal + stdOffset z * msPerMinute)"

text \<open>\<^verbatim>\<open>getDay()\<close>, in local time.\<close>

definition getDay :: "zone \<Rightarrow> jsdate \<Rightarrow> int" where
  "getDay z t = WeekDay (Day (LocalTime z t))"

text \<open>
  Civil dates (year, month 1..12, day of month) and day numbers, by the usual
  era-based conversion of the proleptic Gregorian calendar.
\<close>

type_synonym civil = "int \<times> int \<times> int"

definition days_from_civil :: "int \<Rightarrow> int \<Rightarrow> int \<Rightarrow> int" where
  "days_from_civil y m d =
     (let y' = (if m \<le> 2 then y - 1 else y);
          era = y' div 400;
          yoe = y' - era * 400;
          doy = (153 * (if m > 2 then m - 3 else m + 9) + 2) div 5 + d - 1;
          doe = yoe * 365 + yoe div 4 - yoe div 100 + doy
      in era * 146097 + doe - 719468)"

definition civil_from_days :: "int \<Rightarrow> civil" where
  "civil_from_days z =
     (let z' = z + 719468;
          era = z' div 146097;
          doe = z' - era * 146097;
          yoe = (doe - doe div 1460 + doe div 36524 - doe div 146096) div 365;
          y = yoe + era * 400;
          doy = doe - (365 * yoe + yoe div 4 - yoe div 100);
          mp = (5 * doy + 2) div 153;
          d = doy - (153 * mp + 2) div 5 + 1;
          m = (if mp < 10 then mp + 3 else mp - 9)
      in (if m \<le> 2 then y + 1 else y, m, d))"

text \<open>
  \<^verbatim>\<open>MakeDay(year, month, date)\<close> of ECMAScript: the month is 0-based and may lie
  outside 0..11 (it carries into the year), the date may lie outside the month (it is
  counted from the first of the month).
\<close>

definition MakeDay :: "int \<Rightarrow> int \<Rightarrow> int \<Rightarrow> int" where
  "MakeDay y m d = days_from_civil (y + m div 12) (m mod 12 + 1) 1 + d - 1"

definition MakeDate :: "int \<Rightarrow> int \<Rightarrow> int" where
  "MakeDate day time = day * msPerDay + time"

definition getFullYear :: "zone \<Rightarrow> jsdate \<Rightarrow> int" where
  "getFullYear z t = fst (civil_from_days (Day (LocalTime z t)))"

text \<open>\<^verbatim>\<open>getMonth()\<close> is 0-based.\<close>

definition getMonth :: "zone \<Rightarrow> jsdate \<Rightarrow> int" where
  "getMonth z t = fst (snd (civil_from_days (Day (LocalTime z t)))) - 1"

definition getDate :: "zone \<Rightarrow> jsdate \<Rightarrow> int" where
  "getDate z t = snd (snd (civil_from_days (Day (LocalTime z t))))"

text \<open>
  \<^verbatim>\<open>new Date(year, month, date)\<close>: local midnight; a year from 0 to 99 stands for
  1900 to 1999.
\<close>

definition newDate :: "zone \<Rightarrow> int \<Rightarrow> int \<Rightarrow> int \<Rightarrow> jsdate" where
  "newDate z y m d =
     UTC z (MakeDate (MakeDay (if 0 \<le> y \<and> y \<le> 99 then 1900 + y else y) m d) 0)"

text \<open>The setters work on the local date and keep the local time of day.\<close>

definition setDate :: "zone \<Rightarrow> jsdate \<Rightarrow> int \<Rightarrow> jsdate" where
  "setDate z t d =
     UTC z (MakeDate (MakeDay (getFullYear z t) (getMonth z t) d) (TimeWithinDay (LocalTime z t)))"

definition setMonth :: "zone \<Rightarrow> jsdate \<Rightarrow> int \<Rightarrow> jsdate" where
  "setMonth z t m =
     UTC z (MakeDate (MakeDay (getFullYear z t) m (getDate z t)) (TimeWithinDay (LocalTime z t)))"

text \<open>
  A date string \<^verbatim>\<open>YYYY-MM-DD\<close> is represented by the civil date it denotes; the
  strings are taken to name calendar dates (what an engine or date-fns makes of a string
  such as \<^verbatim>\<open>2024-02-30\<close> is left out). \<^verbatim>\<open>parseISO\<close> (date-fns) reads a date string as
  local midnight; \<^verbatim>\<open>new Date(string)\<close> reads a date-only string as UTC midnight.
\<close>

definition isLeapYear :: "int \<Rightarrow> bool" where
  "isLeapYear y = (if y mod 100 = 0 then y mod 400 = 0 else y mod 4 = 0)"

definition daysInMonth :: "int \<Rightarrow> int \<Rightarrow> int" where
  "daysInMonth y m =
     (if m = 2 then (if isLeapYear y then 29 else 28)
      else if m = 4 \<or> m = 6 \<or> m = 9 \<or> m = 11 then 30 else 31)"


definition dayOfCivil :: "civil \<Rightarrow> int" where
  "dayOfCivil c = (case c of (y, m, d) \<Rightarrow> days_from_civil y m d)"

definition parseISO :: "zone \<Rightarrow> civil \<Rightarrow> jsdate" where
  "parseISO z c = UTC z (MakeDate (dayOfCivil c) 0)"

definition newDateOfString :: "civil \<Rightarrow> jsdate" where
  "newDateOfString c = MakeDate (dayOfCivil c) 0"

text \<open>date-fns \<^verbatim>\<open>isBefore\<close>, \<^verbatim>\<open>isEqual\<close>.\<close>

definition isBefore :: "jsdate \<Rightarrow> jsdate \<Rightarrow> bool" where
  "isBefore a b = (a < b)"

definition isEqual :: "jsdate \<Rightarrow> jsdate \<Rightarrow> bool" where
  "isEqual a b = (a = b)"

subsection \<open>Working days\<close>

text \<open>
  \<^verbatim>\<open>currentDate.setDate(currentDate.getDate() + 1)\<close>: the local date moves to the next
  day of the calendar and the local time of day is kept, so the local time value grows
  by one day and is then read back as an instant. Where the clocks skip that local time
  the date lands an hour later on the clock.
\<close>

definition nextLocalDay :: "zone \<Rightarrow> jsdate \<Rightarrow> jsdate" where
  "nextLocalDay z t = UTC z (LocalTime z t + msPerDay)"

text \<open>
  The loop shared, letter for letter, by the four working-day counters:
  \<^verbatim>\<open>while (currentDate <= endDate) { const day = currentDate.getDay();
  if (day !== 0 && day !== 6) workingDays++; currentDate.setDate(currentDate.getDate() + 1); }\<close>.
  Every round moves the instant on by at least 23 hours, which ends the loop.
\<close>

function workingDays_loop :: "zone \<Rightarrow> jsdate \<Rightarrow> jsdate \<Rightarrow> nat \<Rightarrow> nat" where
  "workingDays_loop z currentDate endDate workingDays =
     (if currentDate \<le> endDate
      then workingDays_loop z (nextLocalDay z currentDate) endDate
             (if getDay z currentDate \<noteq> 0 \<and> getDay z currentDate \<noteq> 6
              then workingDays + 1 else workingDays)
      else workingDays)"
  by pat_completeness auto
termination
  by (relation "measure (\<lambda>(z, c, e, w). nat (e - c + 1))")
     (auto simp: nextLocalDay_def UTC_def LocalTime_def getTimezoneOffset_def
        msPerDay_def msPerMinute_def)

text \<open>
  The anomaly flow's counter. \<^verbatim>\<open>setMinutes(getMinutes() + getTimezoneOffset())\<close> moves
  the local time value by the zone offset, which turns the UTC midnight that
  \<^verbatim>\<open>new Date(string)\<close> gave into the local midnight of the same date. There is no guard
  for an end before the start.
\<close>

definition getWorkingDaysForPeriod :: "zone \<Rightarrow> jsdate \<Rightarrow> jsdate \<Rightarrow> nat" where
  "getWorkingDaysForPeriod z startDate endDate =
     (let currentDate =
            UTC z (LocalTime z startDate + getTimezoneOffset z startDate * msPerMinute);
          finalDate =
            UTC z (LocalTime z endDate + getTimezoneOffset z endDate * msPerMinute)
      in workingDays_loop z currentDate finalDate 0)"

text \<open>The billing tab's counter (a \<^verbatim>\<open>Date\<close> object is never falsy).\<close>

definition getWorkingDays :: "zone \<Rightarrow> jsdate \<Rightarrow> jsdate \<Rightarrow> nat" where
  "getWorkingDays z startDate endDate =
     (if isBefore endDate startDate then 0 else workingDays_loop z startDate endDate 0)"

text \<open>The manager analytics' counter.\<close>

definition getWorkingDays_analytics :: "zone \<Rightarrow> jsdate \<Rightarrow> jsdate \<Rightarrow> nat" where
  "getWorkingDays_analytics z startDate endDate =
     (if isBefore endDate startDate then 0 else workingDays_loop z startDate endDate 0)"

text \<open>The SOW card's counter.\<close>

definition getWorkingDays_card :: "zone \<Rightarrow> jsdate \<Rightarrow> jsdate \<Rightarrow> nat" where
  "getWorkingDays_card z startDate endDate =
     (if isBefore endDate startDate then 0 else workingDays_loop z startDate endDate 0)"

text \<open>
  What the counters are meant to compute, in the words of the specification: the
  number of Monday-to-Friday days among the calendar days \<open>s, ..., e\<close>.
\<close>

definition isWorkingDay :: "int \<Rightarrow> bool" where
  "isWorkingDay d = (1 \<le> WeekDay d \<and> WeekDay d \<le> 5)"

definition workingDays_spec :: "int \<Rightarrow> int \<Rightarrow> nat" where
  "workingDays_spec s e = card {d. s \<le> d \<and> d \<le> e \<and> isWorkingDay d}"

subsection \<open>Billing rates\<close>

record BillingRate =
  year :: int
  ratePerResource :: real

text \<open>
  \<^verbatim>\<open>getRateForYear\<close>, the same text in the billing tab, the manager analytics and the
  SOW card. \<^verbatim>\<open>[...billingRates].sort((a, b) => b.year - a.year)\<close> is a stable sort by
  descending year; \<^verbatim>\<open>applicableRate?.ratePerResource || 0\<close> is 0 when nothing was found
  (and a found rate of 0 is 0 either way).
\<close>

definition getRateForYear :: "BillingRate list \<Rightarrow> int \<Rightarrow> real" where
  "getRateForYear billingRates y =
     (if billingRates = [] then 0
      else let sortedRates = sort_key (\<lambda>r. - year r) billingRates;
               applicableRate = find (\<lambda>rate. year rate \<le> y) sortedRates
           in case applicableRate of None \<Rightarrow> 0 | Some r \<Rightarrow> ratePerResource r)"

subsection \<open>The SOW list\<close>

text \<open>The field \<^verbatim>\<open>id\<close> of a SOW is \<open>sow_id\<close> here.\<close>

record SOW =
  sow_id :: string
  projectName :: string
  vendorName :: string
  vendorManager :: string
  purchaseOrderNumber :: "string option"
  startDate :: civil
  endDate :: civil
  billingRates :: "BillingRate list"
  numberOfResources :: nat
  clientManager :: string

record ResourceLeave =
  resourceName :: string
  leaveDays :: real

definition handleSaveSow :: "SOW list \<Rightarrow> SOW \<Rightarrow> SOW list" where
  "handleSaveSow prevSows sowToSave =
     (let exists = list_ex (\<lambda>s. sow_id s = sow_id sowToSave) prevSows
      in if exists then map (\<lambda>s. if sow_id s = sow_id sowToSave then sowToSave else s) prevSows
         else prevSows @ [sowToSave])"

definition handleDeleteSow :: "SOW list \<Rightarrow> string \<Rightarrow> SOW list" where
  "handleDeleteSow prevSows sowId = filter (\<lambda>s. sow_id s \<noteq> sowId) prevSows"

subsection \<open>The anomaly flow\<close>

record FlowInput =
  in_vendorName :: string
  in_sowStartDate :: civil
  in_sowEndDate :: civil
  in_billingRates :: "BillingRate list"
  in_numberOfResources :: nat
  in_actualNumberOfResources :: nat
  in_billingPeriodStartDate :: civil
  in_billingPeriodEndDate :: civil
  in_actualBillingAmount :: real
  in_regionalHolidays :: real
  in_resourceLeaves :: "ResourceLeave list"
  in_usdConversionRate :: "real option"

record FlowOutput =
  isAnomaly :: bool
  expectedBillingAmount :: real
  explanation :: string

text \<open>
  What the flow hands to the prompt: the input and the computed values (the source formats
  the numbers as strings with \<^verbatim>\<open>toFixed\<close>; the numbers themselves are kept here).
\<close>

record PromptInput =
  p_input :: FlowInput
  p_currentYearBillingRate :: real
  p_expectedBillingAmount :: real
  p_actualBillingAmount :: real
  p_isAnomaly :: bool

datatype flow_error = SchemaError | RateNotFound int | NoOutput

text \<open>
  The flow is defined with \<^verbatim>\<open>inputSchema\<close>, and an input that does not match it is
  refused before the body runs: the four dates match \<^verbatim>\<open>^\d{4}-\d{2}-\d{2}$\<close> (four, two
  and two digits), \<^verbatim>\<open>numberOfResources\<close> is at least 1, \<^verbatim>\<open>regionalHolidays\<close> and every
  \<^verbatim>\<open>leaveDays\<close> are at least 0 (as is \<^verbatim>\<open>actualNumberOfResources\<close>, a natural number
  here).
\<close>

definition dateString :: "civil \<Rightarrow> bool" where
  "dateString c =
     (case c of (y, m, d) \<Rightarrow> 0 \<le> y \<and> y \<le> 9999 \<and> 0 \<le> m \<and> m \<le> 99 \<and> 0 \<le> d \<and> d \<le> 99)"

definition inputSchema :: "FlowInput \<Rightarrow> bool" where
  "inputSchema input =
     (dateString (in_sowStartDate input) \<and> dateString (in_sowEndDate input)
      \<and> 1 \<le> in_numberOfResources input
      \<and> dateString (in_billingPeriodStartDate input)
      \<and> dateString (in_billingPeriodEndDate input)
      \<and> 0 \<le> in_regionalHolidays input
      \<and> list_all (\<lambda>leave. 0 \<le> leaveDays leave) (in_resourceLeaves input))"

definition ANOMALY_THRESHOLD_PERCENTAGE :: real where
  "ANOMALY_THRESHOLD_PERCENTAGE = 0.05"

text \<open>\<^verbatim>\<open>input.resourceLeaves[i]?.leaveDays || 0\<close>: a missing entry counts as 0.\<close>

definition resourceLeaveDays :: "ResourceLeave list \<Rightarrow> nat \<Rightarrow> real" where
  "resourceLeaveDays leaves i = (if i < length leaves then leaveDays (leaves ! i) else 0)"

text \<open>
  The \<^verbatim>\<open>for\<close> loop over \<open>i = 0, ..., actualNumberOfResources - 1\<close>, adding
  \<^verbatim>\<open>Math.max(0, effectiveBaseWorkingDays - resourceLeaveDays) * currentYearBillingRate\<close>
  to the running total.
\<close>

definition totalExpectedBilling :: "real \<Rightarrow> real \<Rightarrow> nat \<Rightarrow> ResourceLeave list \<Rightarrow> real" where
  "totalExpectedBilling effectiveBaseWorkingDays currentYearBillingRate n leaves =
     fold (\<lambda>i total.
             total + max 0 (effectiveBaseWorkingDays - resourceLeaveDays leaves i)
                       * currentYearBillingRate)
          [0..<n] 0"

text \<open>The conversion: applied only when a rate is given and positive (it multiplies).\<close>

definition toUSD :: "real option \<Rightarrow> real \<Rightarrow> real" where
  "toUSD usdConversionRate amount =
     (case usdConversionRate of
        None \<Rightarrow> amount
      | Some r \<Rightarrow> if r > 0 then amount * r else amount)"

text \<open>
  The two lines that classify: \<^verbatim>\<open>relativeDeviation\<close> and
  \<^verbatim>\<open>isAnomalyDetectedBySystem\<close>, as functions of the two amounts in USD.
\<close>

definition relativeDeviation :: "real \<Rightarrow> real \<Rightarrow> real" where
  "relativeDeviation expectedBillingAmountUSD actualBillingAmountUSD =
     (let deviation = \<bar>actualBillingAmountUSD - expectedBillingAmountUSD\<bar>
      in if expectedBillingAmountUSD > 0 then deviation / expectedBillingAmountUSD
         else (if deviation > 0 then 1 else 0))"

definition isAnomalyDetectedBySystem :: "real \<Rightarrow> real \<Rightarrow> bool" where
  "isAnomalyDetectedBySystem expectedBillingAmountUSD actualBillingAmountUSD =
     (relativeDeviation expectedBillingAmountUSD actualBillingAmountUSD
        > ANOMALY_THRESHOLD_PERCENTAGE)"

text \<open>
  \<^verbatim>\<open>new Date(input.billingPeriodEndDate).getFullYear()\<close>: the year is read, in local
  time, from the period's end date parsed as UTC midnight.
\<close>

definition currentYear :: "zone \<Rightarrow> FlowInput \<Rightarrow> int" where
  "currentYear z input = getFullYear z (newDateOfString (in_billingPeriodEndDate input))"

text \<open>
  The flow. The language model is the parameter \<open>prompt\<close>; it may return no output.
  A history with no entry for exactly the current year raises the error of the source,
  \<^verbatim>\<open>Billing rate for year ... not found in the provided billingRates history\<close>.
\<close>

definition generateBillingAnomalyExplanationFlow ::
    "zone \<Rightarrow> (PromptInput \<Rightarrow> FlowOutput option) \<Rightarrow> FlowInput \<Rightarrow> flow_error + FlowOutput" where
  "generateBillingAnomalyExplanationFlow z prompt input =
     (if \<not> inputSchema input then Inl SchemaError
      else case find (\<lambda>rate. year rate = currentYear z input) (in_billingRates input) of
           None \<Rightarrow> Inl (RateNotFound (currentYear z input))
         | Some currentYearBillingRateEntry \<Rightarrow>
             (let currentYearBillingRate = ratePerResource currentYearBillingRateEntry;
                  baseWorkingDaysInPeriod =
                    getWorkingDaysForPeriod z
                      (newDateOfString (in_billingPeriodStartDate input))
                      (newDateOfString (in_billingPeriodEndDate input));
                  effectiveBaseWorkingDays =
                    real baseWorkingDaysInPeriod - in_regionalHolidays input;
                  expectedBillingAmountUSD =
                    toUSD (in_usdConversionRate input)
                      (totalExpectedBilling effectiveBaseWorkingDays currentYearBillingRate
                         (in_actualNumberOfResources input) (in_resourceLeaves input));
                  actualBillingAmountUSD =
                    toUSD (in_usdConversionRate input) (in_actualBillingAmount input);
                  promptInput = \<lparr> p_input = input,
                                  p_currentYearBillingRate = currentYearBillingRate,
                                  p_expectedBillingAmount = expectedBillingAmountUSD,
                                  p_actualBillingAmount = actualBillingAmountUSD,
                                  p_isAnomaly = isAnomalyDetectedBySystem
                                                  expectedBillingAmountUSD actualBillingAmountUSD \<rparr>
              in case prompt promptInput of
                   None \<Rightarrow> Inl NoOutput
                 | Some output \<Rightarrow>
                     Inr \<lparr> isAnomaly = isAnomaly output,
                           expectedBillingAmount = expectedBillingAmountUSD,
                           explanation = explanation output \<rparr>))"

text \<open>
  The specification's words for the billable resource-days of a month: each resource's
  billable days are \<open>max(0, effectiveDaysPerResource - leaveDays)\<close>, a missing leave entry
  counting as zero leave days, and the total is the sum over the first
  \<open>actualNumberOfResources\<close> resources.
\<close>

definition perResourceBillableDays_spec :: "real \<Rightarrow> ResourceLeave list \<Rightarrow> nat \<Rightarrow> real" where
  "perResourceBillableDays_spec effectiveDaysPerResource leaves i =
     max 0 (effectiveDaysPerResource - (if i < length leaves then leaveDays (leaves ! i) else 0))"

definition totalBillableResourceDays_spec :: "real \<Rightarrow> nat \<Rightarrow> ResourceLeave list \<Rightarrow> real" where
  "totalBillableResourceDays_spec effectiveDaysPerResource n leaves =
     (\<Sum>i<n. perResourceBillableDays_spec effectiveDaysPerResource leaves i)"

subsection \<open>The billing tab\<close>

text \<open>
  \<^verbatim>\<open>monthId\<close> is the string \<^verbatim>\<open>yyyy-MM\<close> of the source, kept here as the pair of
  the year and the month number 1..12.
\<close>

record MonthlyBillingData =
  monthId :: "int \<times> int"
  billingPeriodStartDate :: jsdate
  billingPeriodEndDate :: jsdate
  regionalHolidays :: real
  actualNumberOfResources :: nat
  resourceLeaves :: "ResourceLeave list"

text \<open>Decimal digits of a number, for the names \<^verbatim>\<open>Resource 1\<close>, \<^verbatim>\<open>Resource 2\<close>, ...\<close>

fun string_of_nat :: "nat \<Rightarrow> string" where
  "string_of_nat n =
     (if n < 10 then [char_of (48 + n)]
      else string_of_nat (n div 10) @ [char_of (48 + n mod 10)])"

definition defaultLeaves :: "nat \<Rightarrow> ResourceLeave list" where
  "defaultLeaves n =
     map (\<lambda>i. \<lparr> resourceName = ''Resource '' @ string_of_nat (i + 1), leaveDays = 0 \<rparr>) [0..<n]"

text \<open>
  \<^verbatim>\<open>setMonth(month, date)\<close> and \<^verbatim>\<open>setFullYear(year, month, date)\<close>, and date-fns
  \<^verbatim>\<open>addMonths\<close>, which keeps the day of the month unless the target month is shorter.
\<close>

definition setMonthDate :: "zone \<Rightarrow> jsdate \<Rightarrow> int \<Rightarrow> int \<Rightarrow> jsdate" where
  "setMonthDate z t m d =
     UTC z (MakeDate (MakeDay (getFullYear z t) m d) (TimeWithinDay (LocalTime z t)))"

definition setFullYear :: "zone \<Rightarrow> jsdate \<Rightarrow> int \<Rightarrow> int \<Rightarrow> int \<Rightarrow> jsdate" where
  "setFullYear z t y m d = UTC z (MakeDate (MakeDay y m d) (TimeWithinDay (LocalTime z t)))"

definition addMonths :: "zone \<Rightarrow> jsdate \<Rightarrow> int \<Rightarrow> jsdate" where
  "addMonths z date amount =
     (if amount = 0 then date
      else let dayOfMonth = getDate z date;
               endOfDesiredMonth = setMonthDate z date (getMonth z date + amount + 1) 0;
               daysInMonth = getDate z endOfDesiredMonth
           in if dayOfMonth \<ge> daysInMonth then endOfDesiredMonth
              else setFullYear z date (getFullYear z endOfDesiredMonth)
                     (getMonth z endOfDesiredMonth) dayOfMonth)"

text \<open>
  The loop of \<^verbatim>\<open>getBillingPeriods\<close>: one month per round, from the first of the start
  date's month, while that first of the month is not after the end date. The result of
  the loop is \<open>None\<close> should it never end.
\<close>

partial_function (option) getBillingPeriods_loop ::
    "zone \<Rightarrow> SOW \<Rightarrow> jsdate \<Rightarrow> jsdate \<Rightarrow> jsdate \<Rightarrow> MonthlyBillingData list
       \<Rightarrow> MonthlyBillingData list option"
where
  "getBillingPeriods_loop z sow sowStartDate sowEndDate currentPeriodDate periods =
     (if isBefore currentPeriodDate sowEndDate \<or> isEqual currentPeriodDate sowEndDate
      then let y = getFullYear z currentPeriodDate;
               month = getMonth z currentPeriodDate;
               billingEndDate = newDate z y month 25;
               billingStartDate = newDate z y (month - 1) 26
           in getBillingPeriods_loop z sow sowStartDate sowEndDate
                (addMonths z currentPeriodDate 1)
                (if billingEndDate \<ge> sowStartDate \<and> billingStartDate \<le> sowEndDate
                 then periods @
                        [\<lparr> monthId = (y, month + 1),
                           billingPeriodStartDate = billingStartDate,
                           billingPeriodEndDate = billingEndDate,
                           regionalHolidays = 0,
                           actualNumberOfResources = numberOfResources sow,
                           resourceLeaves = defaultLeaves (numberOfResources sow) \<rparr>]
                 else periods)
      else Some periods)"

declare getBillingPeriods_loop.simps [code]

definition getBillingPeriods :: "zone \<Rightarrow> SOW \<Rightarrow> MonthlyBillingData list option" where
  "getBillingPeriods z sow =
     (let sowStartDate = parseISO z (startDate sow);
          sowEndDate = parseISO z (endDate sow);
          currentPeriodDate = newDate z (getFullYear z sowStartDate) (getMonth z sowStartDate) 1
      in map_option rev
           (getBillingPeriods_loop z sow sowStartDate sowEndDate currentPeriodDate []))"

text \<open>
  The effective window of a period: \<^verbatim>\<open>max([billingPeriodStartDate, sowStartDate])\<close> to
  \<^verbatim>\<open>min([billingPeriodEndDate, sowEndDate])\<close>.
\<close>

definition effectiveStart :: "zone \<Rightarrow> SOW \<Rightarrow> MonthlyBillingData \<Rightarrow> jsdate" where
  "effectiveStart z sow month = max (billingPeriodStartDate month) (parseISO z (startDate sow))"

definition effectiveEnd :: "zone \<Rightarrow> SOW \<Rightarrow> MonthlyBillingData \<Rightarrow> jsdate" where
  "effectiveEnd z sow month = min (billingPeriodEndDate month) (parseISO z (endDate sow))"

text \<open>
  \<^verbatim>\<open>previewBilling\<close>, the Monthly Billing Preview: the period that contains \<open>now\<close>,
  else the first of the list. \<^verbatim>\<open>monthName\<close> is kept as the month id of the period
  (\<open>None\<close> for the empty string).
\<close>

record Preview =
  amount :: real
  billableDays :: real
  dailyRate :: real
  monthlyRate :: real
  monthName :: "(int \<times> int) option"

definition previewBilling :: "zone \<Rightarrow> jsdate \<Rightarrow> SOW \<Rightarrow> MonthlyBillingData list \<Rightarrow> Preview" where
  "previewBilling z now sow monthlyData =
     (let currentMonthData =
            find (\<lambda>period. now \<ge> billingPeriodStartDate period \<and> now \<le> billingPeriodEndDate period)
              monthlyData;
          targetMonth = (case currentMonthData of
                           Some m \<Rightarrow> Some m
                         | None \<Rightarrow> (case monthlyData of [] \<Rightarrow> None | m # _ \<Rightarrow> Some m))
      in case targetMonth of
           None \<Rightarrow> \<lparr> amount = 0, billableDays = 0, dailyRate = 0, monthlyRate = 0,
                      monthName = None \<rparr>
         | Some targetMonth \<Rightarrow>
             (let y = getFullYear z (billingPeriodEndDate targetMonth);
                  monthlyRate = getRateForYear (billingRates sow) y;
                  dailyRate = monthlyRate / 21;
                  workingDays = getWorkingDays z (effectiveStart z sow targetMonth)
                                  (effectiveEnd z sow targetMonth);
                  billableDays = real workingDays - regionalHolidays targetMonth;
                  totalLeaveDays = foldl (\<lambda>sum leave. sum + leaveDays leave) 0
                                     (resourceLeaves targetMonth);
                  totalBillableDaysForAllResources =
                    billableDays * real (actualNumberOfResources targetMonth) - totalLeaveDays
              in \<lparr> amount = totalBillableDaysForAllResources * dailyRate,
                    billableDays = billableDays,
                    dailyRate = dailyRate,
                    monthlyRate = monthlyRate,
                    monthName = Some (monthId targetMonth) \<rparr>))"

text \<open>
  One row of the month list of \<^verbatim>\<open>SowBillingTab\<close>: the month's total, clamped at 0
  after the multiplication, and the bill shown for each leave entry. (The source adds up
  \<^verbatim>\<open>leave.leaveDays || 0\<close>, which is \<^verbatim>\<open>leave.leaveDays\<close> for every number.)
\<close>

record MonthRow =
  billableDaysAfterHolidays :: real
  totalBillableDays :: real
  totalMonthBillingINR :: real
  resourceBills :: "real list"

definition SowBillingTab_month :: "zone \<Rightarrow> SOW \<Rightarrow> MonthlyBillingData \<Rightarrow> MonthRow" where
  "SowBillingTab_month z sow month =
     (let y = getFullYear z (billingPeriodEndDate month);
          monthlyRate = getRateForYear (billingRates sow) y;
          dailyRate = monthlyRate / 21;
          workingDays = getWorkingDays z (effectiveStart z sow month) (effectiveEnd z sow month);
          billableDaysAfterHolidays = real workingDays - regionalHolidays month;
          totalLeaveDays = foldl (\<lambda>acc leave. acc + leaveDays leave) 0 (resourceLeaves month);
          totalBillableDays =
            billableDaysAfterHolidays * real (actualNumberOfResources month) - totalLeaveDays
      in \<lparr> billableDaysAfterHolidays = billableDaysAfterHolidays,
            totalBillableDays = totalBillableDays,
            totalMonthBillingINR = max 0 (totalBillableDays * dailyRate),
            resourceBills =
              map (\<lambda>resource. max 0 (billableDaysAfterHolidays - leaveDays resource) * dailyRate)
                (resourceLeaves month) \<rparr>)"

subsection \<open>The SOW card: expiry and renewal\<close>

text \<open>
  date-fns \<^verbatim>\<open>compareAsc\<close>, \<^verbatim>\<open>differenceInCalendarMonths\<close>, \<^verbatim>\<open>isLastDayOfMonth\<close> and
  \<^verbatim>\<open>differenceInMonths\<close>, the number of full months between two dates. The library
  takes the difference in calendar months, moves the later date back by that many months
  (a date at the end of February is first set to the 30th) and takes one month off when
  the moved date has passed the earlier date, that is, when the last month is not full.
\<close>

definition compareAsc :: "jsdate \<Rightarrow> jsdate \<Rightarrow> int" where
  "compareAsc a b = (if a < b then - 1 else if a > b then 1 else 0)"

definition differenceInCalendarMonths :: "zone \<Rightarrow> jsdate \<Rightarrow> jsdate \<Rightarrow> int" where
  "differenceInCalendarMonths z laterDate earlierDate =
     (getFullYear z laterDate - getFullYear z earlierDate) * 12
       + (getMonth z laterDate - getMonth z earlierDate)"

definition isLastDayOfMonth :: "zone \<Rightarrow> jsdate \<Rightarrow> bool" where
  "isLastDayOfMonth z t =
     (Day (LocalTime z t) = MakeDay (getFullYear z t) (getMonth z t + 1) 0)"

definition differenceInMonths :: "zone \<Rightarrow> jsdate \<Rightarrow> jsdate \<Rightarrow> int" where
  "differenceInMonths z laterDate earlierDate =
     (let sign = compareAsc laterDate earlierDate;
          difference = \<bar>differenceInCalendarMonths z laterDate earlierDate\<bar>
      in if difference < 1 then 0
         else let working = (if getMonth z laterDate = 1 \<and> getDate z laterDate > 27
                             then setDate z laterDate 30 else laterDate);
                  shifted = setMonth z working (getMonth z working - sign * difference);
                  isLastMonthNotFull =
                    (if isLastDayOfMonth z laterDate \<and> difference = 1
                        \<and> compareAsc laterDate earlierDate = 1
                     then False
                     else compareAsc shifted earlierDate = - sign)
              in sign * (difference - (if isLastMonthNotFull then 1 else 0)))"

text \<open>
  The two flags of \<^verbatim>\<open>SowCard\<close>; \<open>sowEndDate\<close> is the parsed end date of the SOW (the
  local midnight that begins its last day) and \<open>now\<close> the current instant.
\<close>

definition isExpired :: "jsdate \<Rightarrow> jsdate \<Rightarrow> bool" where
  "isExpired sowEndDate now = isBefore sowEndDate now"

definition isRenewalDue :: "zone \<Rightarrow> jsdate \<Rightarrow> jsdate \<Rightarrow> bool" where
  "isRenewalDue z sowEndDate now =
     (\<not> isExpired sowEndDate now \<and> differenceInMonths z sowEndDate now \<le> 3)"

subsection \<open>Example data\<close>

text \<open>
  A zone with a fixed offset and no daylight saving time, and the zone of Havana in 2024:
  five hours behind UTC, with daylight saving time from 10 March, 00:00 local time
  (05:00 UTC, the clocks go to 01:00) to 3 November, 01:00 local daylight time (05:00 UTC).
\<close>

definition fixedZone :: "int \<Rightarrow> zone" where
  "fixedZone offset = \<lparr> stdOffset = offset, isDST = (\<lambda>t. False) \<rparr>"

definition havanaZone :: zone where
  "havanaZone = \<lparr> stdOffset = 300, isDST = (\<lambda>t. 1710046800000 \<le> t \<and> t < 1730610000000) \<rparr>"

text \<open>A SOW with a given id and project name, for the concrete instances below.\<close>

definition exampleSow :: "string \<Rightarrow> string \<Rightarrow> SOW" where
  "exampleSow i p =
     \<lparr> sow_id = i, projectName = p, vendorName = ''Vendor'', vendorManager = ''VM'',
       purchaseOrderNumber = None, startDate = (2024, 1, 10), endDate = (2024, 3, 28),
       billingRates = [\<lparr> year = 2024, ratePerResource = 21000 \<rparr>],
       numberOfResources = 1, clientManager = ''CM'' \<rparr>"

text \<open>
  A billing period of February 2024 (26 January to 25 February, 21 working days), in UTC,
  with given holidays, resource count and leave days, and an instant inside it
  (15 February 2024, 10:00 UTC).
\<close>

definition exampleMonth :: "real \<Rightarrow> nat \<Rightarrow> real list \<Rightarrow> MonthlyBillingData" where
  "exampleMonth holidays n leaves =
     \<lparr> monthId = (2024, 2),
       billingPeriodStartDate = newDate (fixedZone 0) 2024 0 26,
       billingPeriodEndDate = newDate (fixedZone 0) 2024 1 25,
       regionalHolidays = holidays,
       actualNumberOfResources = n,
       resourceLeaves = map (\<lambda>d. \<lparr> resourceName = ''Resource'', leaveDays = d \<rparr>) leaves \<rparr>"

definition exampleNow :: jsdate where
  "exampleNow = parseISO (fixedZone 0) (2024, 2, 15) + 36000000"



section \<open>Properties\<close>

subsection \<open>The working-day counters\<close>

declare workingDays_loop.simps [simp del]

lemma WeekDay_range: "0 \<le> WeekDay d \<and> WeekDay d < 7"
  by (simp add: WeekDay_def)

lemma isWorkingDay_iff: "isWorkingDay d \<longleftrightarrow> WeekDay d \<noteq> 0 \<and> WeekDay d \<noteq> 6"
  using WeekDay_range [of d] by (auto simp: isWorkingDay_def)

lemma workingDays_spec_empty:
  assumes "e < s"
  shows "workingDays_spec s e = 0"
proof -
  have emp: "{d. s \<le> d \<and> d \<le> e \<and> isWorkingDay d} = {}"
    using assms by auto
  show ?thesis unfolding workingDays_spec_def emp by simp
qed

lemma workingDays_spec_step:
  assumes "s \<le> e"
  shows "workingDays_spec s e = (if isWorkingDay s then 1 else 0) + workingDays_spec (s + 1) e"
proof -
  let ?A = "{d. s + 1 \<le> d \<and> d \<le> e \<and> isWorkingDay d}"
  have fin: "finite ?A"
    by (rule finite_subset [of _ "{s + 1..e}"]) auto
  have notin: "s \<notin> ?A" by simp
  have split: "{d. s \<le> d \<and> d \<le> e \<and> isWorkingDay d} = (if isWorkingDay s then insert s ?A else ?A)"
    using assms by (auto simp: order_le_less)
  show ?thesis
    unfolding workingDays_spec_def split using fin notin by simp
qed

text \<open>
  In a zone without daylight saving time the local midnight of day \<open>d\<close> is the instant
  \<open>UTC z (MakeDate d 0)\<close>, and a round of the loop moves from one local midnight to the
  next.
\<close>

lemma fixed_LocalTime:
  "\<forall>t. \<not> isDST z t \<Longrightarrow> LocalTime z (UTC z x) = x"
  by (simp add: LocalTime_def UTC_def getTimezoneOffset_def)

lemma fixed_nextLocalDay:
  "\<forall>t. \<not> isDST z t \<Longrightarrow> nextLocalDay z (UTC z (MakeDate d 0)) = UTC z (MakeDate (d + 1) 0)"
  by (simp add: nextLocalDay_def fixed_LocalTime) (simp add: MakeDate_def algebra_simps)

lemma fixed_midnight_le:
  "\<forall>t. \<not> isDST z t \<Longrightarrow> UTC z (MakeDate s 0) \<le> UTC z (MakeDate e 0) \<longleftrightarrow> s \<le> e"
  by (simp add: UTC_def MakeDate_def msPerDay_def)

lemma fixed_getDay:
  "\<forall>t. \<not> isDST z t \<Longrightarrow> getDay z (UTC z (MakeDate d 0)) = WeekDay d"
  by (simp add: getDay_def fixed_LocalTime) (simp add: MakeDate_def Day_def msPerDay_def)

lemma workingDays_loop_fixed:
  assumes z: "\<forall>t. \<not> isDST z t"
  shows "workingDays_loop z (UTC z (MakeDate s 0)) (UTC z (MakeDate e 0)) w
           = w + workingDays_spec s e"
proof (induction "nat (e + 1 - s)" arbitrary: s w)
  case 0
  then have "e < s" by simp
  then show ?case
    by (subst workingDays_loop.simps) (simp add: fixed_midnight_le [OF z] workingDays_spec_empty)
next
  case (Suc n)
  then have le: "s \<le> e" and n: "n = nat (e + 1 - (s + 1))" by simp_all
  show ?case
    apply (subst workingDays_loop.simps)
    apply (simp only: fixed_midnight_le [OF z] le if_True fixed_nextLocalDay [OF z]
        Suc.hyps(1) [OF n] fixed_getDay [OF z])
    apply (simp add: workingDays_spec_step [OF le] isWorkingDay_iff)
    done
qed

lemma workingDays_loop_after: "e < c \<Longrightarrow> workingDays_loop z c e w = w"
  by (subst workingDays_loop.simps) simp

lemma getWorkingDays_unguarded:
  "getWorkingDays z a b = workingDays_loop z a b 0"
  by (simp add: getWorkingDays_def isBefore_def workingDays_loop_after)

lemma getWorkingDays_copies:
  "getWorkingDays_analytics z a b = getWorkingDays z a b"
  "getWorkingDays_card z a b = getWorkingDays z a b"
  by (simp_all add: getWorkingDays_def getWorkingDays_analytics_def getWorkingDays_card_def)

lemma getWorkingDaysForPeriod_local:
  "getWorkingDaysForPeriod z a b = workingDays_loop z (UTC z a) (UTC z b) 0"
  by (simp add: getWorkingDaysForPeriod_def LocalTime_def)

text \<open>
  Without daylight saving time the four counters are the count of Monday-to-Friday
  days, for all pairs of calendar dates.
\<close>

lemma working_day_counters_without_dst:
  assumes "\<forall>t. \<not> isDST z t"
  shows "getWorkingDaysForPeriod z (newDateOfString cs) (newDateOfString ce)
           = workingDays_spec (dayOfCivil cs) (dayOfCivil ce)"
    and "getWorkingDays z (parseISO z cs) (parseISO z ce)
           = workingDays_spec (dayOfCivil cs) (dayOfCivil ce)"
    and "getWorkingDays_analytics z (parseISO z cs) (parseISO z ce)
           = workingDays_spec (dayOfCivil cs) (dayOfCivil ce)"
    and "getWorkingDays_card z (parseISO z cs) (parseISO z ce)
           = workingDays_spec (dayOfCivil cs) (dayOfCivil ce)"
  by (simp_all add: getWorkingDays_copies getWorkingDays_unguarded getWorkingDaysForPeriod_local
      parseISO_def newDateOfString_def workingDays_loop_fixed [OF assms])

text \<open>
  In every zone the four counters agree with each other on calendar dates: the anomaly
  flow's shift by the zone offset turns the UTC midnights it is given into the local
  midnights the other three are given, and the guard of the three returns what the
  unguarded loop returns.
\<close>

lemma working_day_counters_same_function:
  "getWorkingDaysForPeriod z (newDateOfString cs) (newDateOfString ce)
     = getWorkingDays z (parseISO z cs) (parseISO z ce)"
  "getWorkingDays_analytics z a b = getWorkingDays z a b"
  "getWorkingDays_card z a b = getWorkingDays z a b"
  by (simp_all add: getWorkingDays_copies getWorkingDays_unguarded getWorkingDaysForPeriod_local
      parseISO_def newDateOfString_def)

lemma example_count: "workingDays_spec (dayOfCivil (2024, 3, 8)) (dayOfCivil (2024, 3, 12)) = 3"
proof -
  have d: "dayOfCivil (2024, 3, 8) = 19790" "dayOfCivil (2024, 3, 12) = 19794"
    by code_simp+
  show ?thesis
    unfolding d
    by (simp add: workingDays_spec_step workingDays_spec_empty isWorkingDay_def WeekDay_def)
qed

text \<open>
  Claim C9. The four working-day counters run the same loop, but they do not compute the
  count of Monday-to-Friday days for every pair of calendar dates. In Havana the clocks
  go from 00:00 to 01:00 on Sunday 10 March 2024. Counting from Friday 8 March to Tuesday
  12 March, the loop reaches 10 March at 01:00 local time and stays at 01:00 from then on,
  so on 12 March it is past the end date (12 March, 00:00) and leaves the loop before
  that day is counted: the four counters return 2, the number of Monday-to-Friday days is
  3 (8, 11 and 12 March), and in a zone with the same standard offset and no daylight
  saving time the counter returns 3.
\<close>

theorem working_days_across_clock_change:
  "getWorkingDays havanaZone (parseISO havanaZone (2024, 3, 8)) (parseISO havanaZone (2024, 3, 12)) = 2
   \<and> getWorkingDays_analytics havanaZone (parseISO havanaZone (2024, 3, 8))
         (parseISO havanaZone (2024, 3, 12)) = 2
   \<and> getWorkingDays_card havanaZone (parseISO havanaZone (2024, 3, 8))
         (parseISO havanaZone (2024, 3, 12)) = 2
   \<and> getWorkingDaysForPeriod havanaZone (newDateOfString (2024, 3, 8))
         (newDateOfString (2024, 3, 12)) = 2
   \<and> workingDays_spec (dayOfCivil (2024, 3, 8)) (dayOfCivil (2024, 3, 12)) = 3
   \<and> getWorkingDays (fixedZone 300) (parseISO (fixedZone 300) (2024, 3, 8))
         (parseISO (fixedZone 300) (2024, 3, 12)) = 3"
proof -
  have "getWorkingDays havanaZone (parseISO havanaZone (2024, 3, 8)) (parseISO havanaZone (2024, 3, 12)) = 2"
    "getWorkingDays_analytics havanaZone (parseISO havanaZone (2024, 3, 8))
         (parseISO havanaZone (2024, 3, 12)) = 2"
    "getWorkingDays_card havanaZone (parseISO havanaZone (2024, 3, 8))
         (parseISO havanaZone (2024, 3, 12)) = 2"
    "getWorkingDaysForPeriod havanaZone (newDateOfString (2024, 3, 8))
         (newDateOfString (2024, 3, 12)) = 2"
    "getWorkingDays (fixedZone 300) (parseISO (fixedZone 300) (2024, 3, 8))
         (parseISO (fixedZone 300) (2024, 3, 12)) = 3"
    by code_simp+
  with example_count show ?thesis by (intro conjI)
qed

subsection \<open>The rate resolver\<close>

lemma getRateForYear_find:
  "getRateForYear xs y =
     (case find (\<lambda>rate. year rate \<le> y) (sort_key (\<lambda>r. - year r) xs) of
        None \<Rightarrow> 0 | Some r \<Rightarrow> ratePerResource r)"
  by (simp add: getRateForYear_def)

lemma find_sorted_None:
  "find P (sort_key f xs) = None \<longleftrightarrow> (\<forall>x\<in>set xs. \<not> P x)"
  by (auto simp: find_None_iff)

lemma find_sorted_Some:
  assumes "find (\<lambda>rate. year rate \<le> y) (sort_key (\<lambda>r. - year r) xs) = Some r"
  shows "r \<in> set xs \<and> year r \<le> y \<and> (\<forall>x\<in>set xs. year x \<le> y \<longrightarrow> year x \<le> year r)"
proof -
  let ?s = "sort_key (\<lambda>r. - year r) xs"
  from assms obtain i where i: "i < length ?s" "year (?s ! i) \<le> y" "r = ?s ! i"
    and before: "\<forall>j<i. \<not> year (?s ! j) \<le> y"
    unfolding find_Some_iff by blast
  have srt: "sorted (map (\<lambda>r. - year r) ?s)" by simp
  have "r \<in> set xs" using i(1,3) by (metis nth_mem set_sort)
  moreover have "year x \<le> year r" if x: "x \<in> set xs" "year x \<le> y" for x
  proof -
    from x(1) have "x \<in> set ?s" by simp
    then obtain k where k: "k < length ?s" "?s ! k = x" by (metis in_set_conv_nth)
    have "i \<le> k" using before k x(2) by (metis not_le_imp_less)
    then have "map (\<lambda>r. - year r) ?s ! i \<le> map (\<lambda>r. - year r) ?s ! k"
      using srt k(1) by (simp add: sorted_iff_nth_mono del: sorted_sort_key)
    then show ?thesis using i k \<open>i \<le> k\<close> by simp
  qed
  ultimately show ?thesis using i by blast
qed

text \<open>
  Claim C4. For every list of rate entries and every target year, \<^verbatim>\<open>getRateForYear\<close>
  returns 0 when no entry has a year at or before the target year, and otherwise the
  \<^verbatim>\<open>ratePerResource\<close> of an entry of the list whose year is at or before the target
  year and is the largest such year. So the rate is never taken from an entry of a later
  year.
\<close>

theorem getRateForYear_latest_at_or_before:
  "((\<forall>r\<in>set rates. \<not> year r \<le> targetYear) \<longrightarrow> getRateForYear rates targetYear = 0)
   \<and> ((\<exists>r\<in>set rates. year r \<le> targetYear) \<longrightarrow>
        (\<exists>r\<in>set rates. year r \<le> targetYear
           \<and> (\<forall>r'\<in>set rates. year r' \<le> targetYear \<longrightarrow> year r' \<le> year r)
           \<and> getRateForYear rates targetYear = ratePerResource r))"
proof (intro conjI impI)
  assume "\<forall>r\<in>set rates. \<not> year r \<le> targetYear"
  then have "find (\<lambda>rate. year rate \<le> targetYear) (sort_key (\<lambda>r. - year r) rates) = None"
    by (simp add: find_sorted_None)
  then show "getRateForYear rates targetYear = 0"
    by (simp add: getRateForYear_find)
next
  assume "\<exists>r\<in>set rates. year r \<le> targetYear"
  then have "find (\<lambda>rate. year rate \<le> targetYear) (sort_key (\<lambda>r. - year r) rates) \<noteq> None"
    by (simp add: find_sorted_None)
  then obtain r where r: "find (\<lambda>rate. year rate \<le> targetYear) (sort_key (\<lambda>r. - year r) rates) = Some r"
    by blast
  from find_sorted_Some [OF r] r
  show "\<exists>r\<in>set rates. year r \<le> targetYear
           \<and> (\<forall>r'\<in>set rates. year r' \<le> targetYear \<longrightarrow> year r' \<le> year r)
           \<and> getRateForYear rates targetYear = ratePerResource r"
    by (auto simp: getRateForYear_find)
qed

theorem getRateForYear_latest_at_or_before_witness:
  "getRateForYear [\<lparr>year = 2023, ratePerResource = 100\<rparr>, \<lparr>year = 2025, ratePerResource = 300\<rparr>,
                   \<lparr>year = 2021, ratePerResource = 50\<rparr>] 2024 = 100
   \<and> getRateForYear [\<lparr>year = 2023, ratePerResource = 100\<rparr>, \<lparr>year = 2025, ratePerResource = 300\<rparr>,
                   \<lparr>year = 2021, ratePerResource = 50\<rparr>] 2020 = 0"
  using getRateForYear_latest_at_or_before
          [of "[\<lparr>year = 2023, ratePerResource = 100\<rparr>, \<lparr>year = 2025, ratePerResource = 300\<rparr>,
                \<lparr>year = 2021, ratePerResource = 50\<rparr>]" 2024]
        getRateForYear_latest_at_or_before
          [of "[\<lparr>year = 2023, ratePerResource = 100\<rparr>, \<lparr>year = 2025, ratePerResource = 300\<rparr>,
                \<lparr>year = 2021, ratePerResource = 50\<rparr>]" 2020]
  by auto

text \<open>
  Adding an entry to a rate list: the sorted list with the entry is the sorted list
  without it, with the entry put in at one place.
\<close>

lemma insort_key_self_split:
  "\<exists>us vs. insort_key f e zs = us @ e # vs \<and> zs = us @ vs"
proof (induction zs)
  case Nil
  show ?case by simp
next
  case (Cons z zs)
  show ?case
  proof (cases "f e \<le> f z")
    case True
    then have "insort_key f e (z # zs) = [] @ e # (z # zs) \<and> z # zs = [] @ (z # zs)" by simp
    then show ?thesis by blast
  next
    case False
    from Cons.IH obtain us vs where "insort_key f e zs = us @ e # vs" "zs = us @ vs" by blast
    with False have "insort_key f e (z # zs) = (z # us) @ e # vs \<and> z # zs = (z # us) @ vs"
      by simp
    then show ?thesis by blast
  qed
qed

lemma insort_key_other_split:
  assumes "sorted (map f (us @ e # vs))"
  shows "\<exists>us' vs'. insort_key f a (us @ e # vs) = us' @ e # vs'
                   \<and> insort_key f a (us @ vs) = us' @ vs'"
  using assms
proof (induction us)
  case Nil
  show ?case
  proof (cases "f a \<le> f e")
    case True
    have "insort_key f a vs = a # vs"
    proof (cases vs)
      case Nil
      then show ?thesis by simp
    next
      case (Cons v vs')
      from Nil.prems Cons have "f e \<le> f v" by simp
      with True have "f a \<le> f v" by (rule order_trans)
      with Cons show ?thesis by simp
    qed
    with True have "insort_key f a ([] @ e # vs) = [a] @ e # vs \<and> insort_key f a ([] @ vs) = [a] @ vs"
      by simp
    then show ?thesis by blast
  next
    case False
    then have "insort_key f a ([] @ e # vs) = [] @ e # insort_key f a vs
               \<and> insort_key f a ([] @ vs) = [] @ insort_key f a vs"
      by simp
    then show ?thesis by blast
  qed
next
  case (Cons u us)
  show ?case
  proof (cases "f a \<le> f u")
    case True
    then have "insort_key f a ((u # us) @ e # vs) = (a # u # us) @ e # vs
               \<and> insort_key f a ((u # us) @ vs) = (a # u # us) @ vs"
      by simp
    then show ?thesis by blast
  next
    case False
    from Cons.prems have "sorted (map f (us @ e # vs))" by simp
    from Cons.IH [OF this] obtain us' vs' where
      "insort_key f a (us @ e # vs) = us' @ e # vs'" "insort_key f a (us @ vs) = us' @ vs'"
      by blast
    with False have "insort_key f a ((u # us) @ e # vs) = (u # us') @ e # vs'
               \<and> insort_key f a ((u # us) @ vs) = (u # us') @ vs'"
      by simp
    then show ?thesis by blast
  qed
qed

lemma sort_key_insert_split:
  "\<exists>us vs. sort_key f (as @ e # bs) = us @ e # vs \<and> sort_key f (as @ bs) = us @ vs"
proof (induction as)
  case Nil
  from insort_key_self_split [of f e "sort_key f bs"] show ?case by simp
next
  case (Cons a as)
  then obtain us vs where s: "sort_key f (as @ e # bs) = us @ e # vs" "sort_key f (as @ bs) = us @ vs"
    by blast
  have "sorted (map f (sort_key f (as @ e # bs)))" by simp
  then have "sorted (map f (us @ e # vs))" by (simp only: s)
  from insort_key_other_split [OF this, of a] s show ?case by simp
qed

lemma find_Some_mem: "find P xs = Some r \<Longrightarrow> r \<in> set xs"
  by (induction xs) (auto split: if_splits)

lemma find_append:
  "find P (us @ vs) = (case find P us of Some r \<Rightarrow> Some r | None \<Rightarrow> find P vs)"
  by (induction us) auto

lemma getRateForYear_add_cases:
  "getRateForYear (as @ e # bs) t = getRateForYear (as @ bs) t
   \<or> (year e \<le> t \<and> getRateForYear (as @ e # bs) t = ratePerResource e)"
proof -
  obtain us vs where s: "sort_key (\<lambda>r. - year r) (as @ e # bs) = us @ e # vs"
      "sort_key (\<lambda>r. - year r) (as @ bs) = us @ vs"
    using sort_key_insert_split [of "\<lambda>r. - year r" as e bs] by blast
  show ?thesis
    unfolding getRateForYear_find s
    by (simp add: find_append split: option.splits)
qed

lemma getRateForYear_add_selects:
  assumes "year e \<le> t" "\<forall>r\<in>set (as @ bs). year r \<le> t \<longrightarrow> year r < year e"
  shows "getRateForYear (as @ e # bs) t = ratePerResource e"
proof -
  let ?f = "find (\<lambda>rate. year rate \<le> t) (sort_key (\<lambda>r. - year r) (as @ e # bs))"
  have "?f \<noteq> None" using assms(1) by (simp add: find_sorted_None)
  then obtain r where r: "?f = Some r" by blast
  from find_sorted_Some [OF r] have "r \<in> set (as @ e # bs)" "year r \<le> t" "year e \<le> year r"
    using assms(1) by auto
  with assms(2) have "r = e" by auto
  with r show ?thesis by (simp add: getRateForYear_find)
qed

lemma getRateForYear_add_later_wins:
  assumes "r2 \<in> set (as @ bs)" "year e < year r2" "year r2 \<le> t"
  shows "getRateForYear (as @ e # bs) t = getRateForYear (as @ bs) t"
proof -
  obtain us vs where s: "sort_key (\<lambda>r. - year r) (as @ e # bs) = us @ e # vs"
      "sort_key (\<lambda>r. - year r) (as @ bs) = us @ vs"
    using sort_key_insert_split [of "\<lambda>r. - year r" as e bs] by blast
  let ?P = "\<lambda>rate. year rate \<le> t"
  have "find ?P (sort_key (\<lambda>r. - year r) (as @ e # bs)) \<noteq> None"
    using assms by (auto simp: find_sorted_None)
  then obtain r where r: "find ?P (sort_key (\<lambda>r. - year r) (as @ e # bs)) = Some r" by blast
  from find_sorted_Some [OF r] assms have big: "year e < year r" by fastforce
  have "find ?P us \<noteq> None"
  proof
    assume none: "find ?P us = None"
    with r s(1) have "find ?P (e # vs) = Some r" by (simp add: find_append)
    moreover have "sorted (map (\<lambda>r. - year r) (us @ e # vs))"
      using sorted_sort_key [of "\<lambda>r. - year r" "as @ e # bs"] by (simp only: s)
    then have "\<forall>v\<in>set vs. year v \<le> year e" by (auto simp: sorted_append)
    ultimately have "year r \<le> year e"
      using find_Some_mem [of ?P "e # vs" r] by auto
    with big show False by simp
  qed
  then show ?thesis
    unfolding getRateForYear_find s by (auto simp: find_append)
qed

text \<open>
  Claim C8, as stated, fails: with the rates 100 for 2020 and 200 for 2024, adding the
  rate 50 for 2022 lowers the rate resolved for 2022 from 100 to 50.
\<close>

theorem getRateForYear_add_entry_counterexample:
  "\<not> getRateForYear [\<lparr>year = 2020, ratePerResource = 100\<rparr>, \<lparr>year = 2024, ratePerResource = 200\<rparr>] 2022
      \<le> getRateForYear [\<lparr>year = 2020, ratePerResource = 100\<rparr>, \<lparr>year = 2024, ratePerResource = 200\<rparr>,
                         \<lparr>year = 2022, ratePerResource = 50\<rparr>] 2022"
  by (simp add: getRateForYear_def)

text \<open>
  Claim C8, amended. Adding an entry \<open>e\<close> anywhere in a rate list leaves the resolved
  rate unchanged for every target year before the year of \<open>e\<close>; for a target year at or
  after it the resolved rate is unchanged or becomes the rate of \<open>e\<close>, so it does not
  decrease when the rate of \<open>e\<close> is at least the rate resolved before. When the year of
  \<open>e\<close> lies strictly between two years \<open>y1 < y2\<close> of the list with no entry between
  them, the resolved rate becomes the rate of \<open>e\<close> for the target years from the year
  of \<open>e\<close> up to \<open>y2 - 1\<close>, and is unchanged from \<open>y2\<close> on.
\<close>

theorem getRateForYear_add_entry:
  "(t < year e \<longrightarrow> getRateForYear (as @ e # bs) t = getRateForYear (as @ bs) t)
   \<and> (year e \<le> t \<longrightarrow>
        getRateForYear (as @ e # bs) t = getRateForYear (as @ bs) t
        \<or> getRateForYear (as @ e # bs) t = ratePerResource e)
   \<and> (year e \<le> t \<and> getRateForYear (as @ bs) t \<le> ratePerResource e \<longrightarrow>
        getRateForYear (as @ bs) t \<le> getRateForYear (as @ e # bs) t)
   \<and> ((\<exists>r1\<in>set (as @ bs). year r1 = y1) \<and> (\<exists>r2\<in>set (as @ bs). year r2 = y2)
        \<and> (\<forall>r\<in>set (as @ bs). \<not> (y1 < year r \<and> year r < y2))
        \<and> y1 < year e \<and> year e < y2 \<longrightarrow>
        (year e \<le> t \<and> t < y2 \<longrightarrow> getRateForYear (as @ e # bs) t = ratePerResource e)
        \<and> (y2 \<le> t \<longrightarrow> getRateForYear (as @ e # bs) t = getRateForYear (as @ bs) t))"
proof (intro conjI impI)
  show "getRateForYear (as @ e # bs) t = getRateForYear (as @ bs) t" if "t < year e"
    using getRateForYear_add_cases [of as e bs t] that by auto
  show "getRateForYear (as @ e # bs) t = getRateForYear (as @ bs) t
        \<or> getRateForYear (as @ e # bs) t = ratePerResource e"
    using getRateForYear_add_cases [of as e bs t] by auto
  show "getRateForYear (as @ bs) t \<le> getRateForYear (as @ e # bs) t"
    if "year e \<le> t \<and> getRateForYear (as @ bs) t \<le> ratePerResource e"
    using getRateForYear_add_cases [of as e bs t] that by auto
next
  assume h: "(\<exists>r1\<in>set (as @ bs). year r1 = y1) \<and> (\<exists>r2\<in>set (as @ bs). year r2 = y2)
        \<and> (\<forall>r\<in>set (as @ bs). \<not> (y1 < year r \<and> year r < y2))
        \<and> y1 < year e \<and> year e < y2"
  show "getRateForYear (as @ e # bs) t = ratePerResource e" if "year e \<le> t \<and> t < y2"
  proof (rule getRateForYear_add_selects)
    show "year e \<le> t" using that by simp
    show "\<forall>r\<in>set (as @ bs). year r \<le> t \<longrightarrow> year r < year e"
    proof (intro ballI impI)
      fix r assume r: "r \<in> set (as @ bs)" "year r \<le> t"
      with h have "\<not> (y1 < year r \<and> year r < y2)" by blast
      moreover from h have "y1 < year e" by blast
      moreover from that have "t < y2" by blast
      ultimately show "year r < year e" using r(2) by linarith
    qed
  qed
  show "getRateForYear (as @ e # bs) t = getRateForYear (as @ bs) t" if "y2 \<le> t"
  proof -
    from h obtain r2 where r2: "r2 \<in> set (as @ bs)" "year r2 = y2" by blast
    from h have "year e < y2" by blast
    with r2 that show ?thesis by (intro getRateForYear_add_later_wins [of r2]) simp_all
  qed
qed

theorem getRateForYear_add_entry_witness:
  "getRateForYear [\<lparr>year = 2020, ratePerResource = 100\<rparr>, \<lparr>year = 2022, ratePerResource = 150\<rparr>,
                   \<lparr>year = 2024, ratePerResource = 200\<rparr>] 2023 = 150
   \<and> getRateForYear [\<lparr>year = 2020, ratePerResource = 100\<rparr>, \<lparr>year = 2024, ratePerResource = 200\<rparr>] 2023
       \<le> getRateForYear [\<lparr>year = 2020, ratePerResource = 100\<rparr>, \<lparr>year = 2022, ratePerResource = 150\<rparr>,
                   \<lparr>year = 2024, ratePerResource = 200\<rparr>] 2023
   \<and> getRateForYear [\<lparr>year = 2020, ratePerResource = 100\<rparr>, \<lparr>year = 2022, ratePerResource = 150\<rparr>,
                   \<lparr>year = 2024, ratePerResource = 200\<rparr>] 2021
       = getRateForYear [\<lparr>year = 2020, ratePerResource = 100\<rparr>, \<lparr>year = 2024, ratePerResource = 200\<rparr>] 2021"
proof -
  let ?a = "[\<lparr>year = 2020, ratePerResource = 100\<rparr>]"
  let ?e = "\<lparr>year = 2022, ratePerResource = 150\<rparr>"
  let ?b = "[\<lparr>year = 2024, ratePerResource = 200\<rparr>]"
  have old: "getRateForYear (?a @ ?b) 2023 = 100"
    by (simp add: getRateForYear_def)
  from getRateForYear_add_entry [where t = 2023 and e = ?e and as = ?a and bs = ?b
      and ?y1.0 = 2020 and ?y2.0 = 2024]
  have 1: "getRateForYear (?a @ ?e # ?b) 2023 = 150"
    and 2: "getRateForYear (?a @ ?b) 2023 \<le> getRateForYear (?a @ ?e # ?b) 2023"
    using old by simp_all
  from getRateForYear_add_entry [where t = 2021 and e = ?e and as = ?a and bs = ?b
      and ?y1.0 = 2020 and ?y2.0 = 2024]
  have 3: "getRateForYear (?a @ ?e # ?b) 2021 = getRateForYear (?a @ ?b) 2021"
    by simp
  from 1 2 3 show ?thesis by simp
qed

subsection \<open>Saving and deleting a SOW\<close>

lemma handleSaveSow_ids:
  "list_ex (\<lambda>x. sow_id x = sow_id s) sows \<Longrightarrow>
   map sow_id (handleSaveSow sows s) = map sow_id sows"
  by (simp add: handleSaveSow_def)

lemma handleSaveSow_distinct:
  assumes "distinct (map sow_id sows)"
  shows "distinct (map sow_id (handleSaveSow sows s))"
proof (cases "list_ex (\<lambda>x. sow_id x = sow_id s) sows")
  case True
  then show ?thesis using assms by (simp only: handleSaveSow_ids)
next
  case False
  then show ?thesis using assms by (auto simp: handleSaveSow_def list_ex_iff)
qed

lemma handleDeleteSow_distinct:
  "distinct (map sow_id sows) \<Longrightarrow> distinct (map sow_id (handleDeleteSow sows k))"
  by (simp add: handleDeleteSow_def distinct_map_filter)

text \<open>
  Claim C10. Saving a SOW \<open>s\<close>: when some element of the list has the id of \<open>s\<close>, the
  list keeps its length, every position whose element has that id holds \<open>s\<close> afterwards,
  and every other position is unchanged; when no element has the id, the result is the
  list with \<open>s\<close> appended. Deleting by an id \<open>k\<close>: no element with the id \<open>k\<close> remains,
  the elements with another id are the same, in the same order, and the length drops by
  the number of elements with the id \<open>k\<close>. Both operations keep the ids of the list
  distinct when they were distinct before.
\<close>

theorem save_and_delete_frame:
  "((\<exists>x\<in>set sows. sow_id x = sow_id s) \<longrightarrow>
      length (handleSaveSow sows s) = length sows
      \<and> (\<forall>i<length sows.
            handleSaveSow sows s ! i = (if sow_id (sows ! i) = sow_id s then s else sows ! i)))
   \<and> ((\<forall>x\<in>set sows. sow_id x \<noteq> sow_id s) \<longrightarrow> handleSaveSow sows s = sows @ [s])
   \<and> (\<forall>x\<in>set (handleDeleteSow sows k). sow_id x \<noteq> k)
   \<and> filter (\<lambda>x. sow_id x \<noteq> k) (handleDeleteSow sows k) = filter (\<lambda>x. sow_id x \<noteq> k) sows
   \<and> length (handleDeleteSow sows k) + length (filter (\<lambda>x. sow_id x = k) sows) = length sows
   \<and> (distinct (map sow_id sows) \<longrightarrow>
        distinct (map sow_id (handleSaveSow sows s))
        \<and> distinct (map sow_id (handleDeleteSow sows k)))"
proof (intro conjI impI)
  assume ex: "\<exists>x\<in>set sows. sow_id x = sow_id s"
  then show "length (handleSaveSow sows s) = length sows"
    by (simp add: handleSaveSow_def list_ex_iff)
  from ex show "\<forall>i<length sows.
            handleSaveSow sows s ! i = (if sow_id (sows ! i) = sow_id s then s else sows ! i)"
    by (simp add: handleSaveSow_def list_ex_iff)
next
  assume "\<forall>x\<in>set sows. sow_id x \<noteq> sow_id s"
  then show "handleSaveSow sows s = sows @ [s]"
    by (simp add: handleSaveSow_def list_ex_iff)
next
  show "\<forall>x\<in>set (handleDeleteSow sows k). sow_id x \<noteq> k"
    by (simp add: handleDeleteSow_def)
  show "filter (\<lambda>x. sow_id x \<noteq> k) (handleDeleteSow sows k) = filter (\<lambda>x. sow_id x \<noteq> k) sows"
    by (simp add: handleDeleteSow_def)
  show "length (handleDeleteSow sows k) + length (filter (\<lambda>x. sow_id x = k) sows) = length sows"
    using sum_length_filter_compl [of "\<lambda>x. sow_id x = k" sows]
    by (simp add: handleDeleteSow_def add.commute)
next
  assume d: "distinct (map sow_id sows)"
  then show "distinct (map sow_id (handleSaveSow sows s))" by (rule handleSaveSow_distinct)
  from d show "distinct (map sow_id (handleDeleteSow sows k))" by (rule handleDeleteSow_distinct)
qed

theorem save_and_delete_frame_witness:
  "handleSaveSow [exampleSow ''1'' ''a'', exampleSow ''2'' ''b''] (exampleSow ''2'' ''c'')
     = [exampleSow ''1'' ''a'', exampleSow ''2'' ''c'']
   \<and> handleSaveSow [exampleSow ''1'' ''a'', exampleSow ''2'' ''b''] (exampleSow ''3'' ''c'')
     = [exampleSow ''1'' ''a'', exampleSow ''2'' ''b'', exampleSow ''3'' ''c'']
   \<and> distinct (map sow_id (handleSaveSow [exampleSow ''1'' ''a'', exampleSow ''2'' ''b'']
                              (exampleSow ''2'' ''c'')))
   \<and> distinct (map sow_id (handleDeleteSow [exampleSow ''1'' ''a'', exampleSow ''2'' ''b''] ''1''))"
proof -
  let ?l = "[exampleSow ''1'' ''a'', exampleSow ''2'' ''b'']"
  have ids: "sow_id (exampleSow i p) = i" for i p by (simp add: exampleSow_def)
  from save_and_delete_frame [of ?l "exampleSow ''2'' ''c''" "''1''"]
  have len: "length (handleSaveSow ?l (exampleSow ''2'' ''c'')) = 2"
    and nth: "\<forall>i<2. handleSaveSow ?l (exampleSow ''2'' ''c'') ! i
               = (if sow_id (?l ! i) = ''2'' then exampleSow ''2'' ''c'' else ?l ! i)"
    and dist: "distinct (map sow_id (handleSaveSow ?l (exampleSow ''2'' ''c'')))"
              "distinct (map sow_id (handleDeleteSow ?l ''1''))"
    by (simp_all add: ids)
  from nth have "handleSaveSow ?l (exampleSow ''2'' ''c'') ! 0 = exampleSow ''1'' ''a''"
    "handleSaveSow ?l (exampleSow ''2'' ''c'') ! 1 = exampleSow ''2'' ''c''"
    by (simp_all add: ids)
  with len have 1: "handleSaveSow ?l (exampleSow ''2'' ''c'')
     = [exampleSow ''1'' ''a'', exampleSow ''2'' ''c'']"
    by (simp add: list_eq_iff_nth_eq less_Suc_eq numeral_2_eq_2)
  from save_and_delete_frame [of ?l "exampleSow ''3'' ''c''" "''1''"]
  have 2: "handleSaveSow ?l (exampleSow ''3'' ''c'') = ?l @ [exampleSow ''3'' ''c'']"
    by (simp add: ids)
  from 1 2 dist show ?thesis by simp
qed

subsection \<open>The anomaly classifier\<close>





subsection \<open>A missing billing rate\<close>









subsection \<open>Billable days per resource\<close>

lemma fold_add_upt:
  "fold (\<lambda>i total. total + g i) [0..<n] (a::real) = a + (\<Sum>i<n. g i)"
  by (induction n) simp_all

lemma resourceLeaveDays_spec:
  "max 0 (eff - resourceLeaveDays leaves i) = perResourceBillableDays_spec eff leaves i"
  by (simp add: resourceLeaveDays_def perResourceBillableDays_spec_def)

lemma totalExpectedBilling_spec:
  "totalExpectedBilling eff rate n leaves = totalBillableResourceDays_spec eff n leaves * rate"
  by (simp add: totalExpectedBilling_def fold_add_upt resourceLeaveDays_spec
      totalBillableResourceDays_spec_def sum_distrib_right)

lemma spec_take:
  "totalBillableResourceDays_spec eff n (take n leaves) = totalBillableResourceDays_spec eff n leaves"
  unfolding totalBillableResourceDays_spec_def
  by (rule sum.cong) (auto simp: perResourceBillableDays_spec_def)

lemma spec_pad:
  "totalBillableResourceDays_spec eff n (leaves @ [\<lparr> resourceName = nm, leaveDays = 0 \<rparr>])
     = totalBillableResourceDays_spec eff n leaves"
  unfolding totalBillableResourceDays_spec_def
  by (rule sum.cong) (auto simp: perResourceBillableDays_spec_def nth_append)

lemma spec_clamp:
  assumes "\<forall>l\<in>set leaves. 0 \<le> leaveDays l"
  shows "totalBillableResourceDays_spec (max 0 eff) n leaves
           = totalBillableResourceDays_spec eff n leaves"
  unfolding totalBillableResourceDays_spec_def
proof (rule sum.cong)
  fix i
  show "perResourceBillableDays_spec (max 0 eff) leaves i = perResourceBillableDays_spec eff leaves i"
  proof (cases "i < length leaves")
    case True
    then have "0 \<le> leaveDays (leaves ! i)" using assms by simp
    with True show ?thesis by (simp add: perResourceBillableDays_spec_def max_def)
  next
    case False
    then show ?thesis by (simp add: perResourceBillableDays_spec_def)
  qed
qed simp

text \<open>
  The anomaly flow follows the per-resource rule: the expected amount it returns is the
  rate times the per-resource sum over the first \<open>actualNumberOfResources\<close> leave entries.
\<close>

lemma flow_expected_amount:
  assumes "generateBillingAnomalyExplanationFlow z prompt input = Inr out"
  shows "\<exists>e\<in>set (in_billingRates input). year e = currentYear z input
           \<and> expectedBillingAmount out
               = toUSD (in_usdConversionRate input)
                   (totalBillableResourceDays_spec
                      (max 0 (real (getWorkingDaysForPeriod z
                                      (newDateOfString (in_billingPeriodStartDate input))
                                      (newDateOfString (in_billingPeriodEndDate input)))
                                - in_regionalHolidays input))
                      (in_actualNumberOfResources input) (in_resourceLeaves input)
                    * ratePerResource e)"
proof (cases "find (\<lambda>rate. year rate = currentYear z input) (in_billingRates input)")
  case None
  with assms show ?thesis
    by (simp add: generateBillingAnomalyExplanationFlow_def split: if_splits)
next
  case (Some e)
  then have e: "e \<in> set (in_billingRates input)" "year e = currentYear z input"
    by (auto simp: find_Some_iff)
  from assms have "inputSchema input"
    by (auto simp: generateBillingAnomalyExplanationFlow_def split: if_splits)
  then have leaves: "\<forall>l\<in>set (in_resourceLeaves input). 0 \<le> leaveDays l"
    by (simp add: inputSchema_def list_all_iff)
  from assms Some have "expectedBillingAmount out
               = toUSD (in_usdConversionRate input)
                   (totalBillableResourceDays_spec
                      (max 0 (real (getWorkingDaysForPeriod z
                                      (newDateOfString (in_billingPeriodStartDate input))
                                      (newDateOfString (in_billingPeriodEndDate input)))
                                - in_regionalHolidays input))
                      (in_actualNumberOfResources input) (in_resourceLeaves input)
                    * ratePerResource e)"
    by (auto simp: generateBillingAnomalyExplanationFlow_def Let_def totalExpectedBilling_spec
        spec_clamp [OF leaves] split: option.splits if_splits)
  with e show ?thesis by blast
qed

lemma example_spec_total:
  "totalBillableResourceDays_spec 21 2 (resourceLeaves (exampleMonth 0 2 [30, 0])) = 21"
  by (simp add: totalBillableResourceDays_spec_def perResourceBillableDays_spec_def
      exampleMonth_def lessThan_Suc numeral_2_eq_2)

text \<open>
  Claim C7. The billing tab's totals do not follow the per-resource rule. For the
  February 2024 period (21 working days, no holidays) with two resources and leave days
  30 and 0, the rule gives \<open>max(0, 21 - 30) + max(0, 21 - 0) = 21\<close> billable
  resource-days, which is what the anomaly flow's loop computes (21000 at the rate 1000)
  and what the rows of the month's table show (0 and 21000). The total of the same
  table and the preview compute \<open>21 * 2 - 30 = 12\<close> resource-days, 12000.
\<close>

theorem billing_tab_total_without_per_resource_clamp:
  "billableDaysAfterHolidays
     (SowBillingTab_month (fixedZone 0) (exampleSow ''1'' ''a'') (exampleMonth 0 2 [30, 0])) = 21
   \<and> totalBillableResourceDays_spec 21 2 (resourceLeaves (exampleMonth 0 2 [30, 0])) = 21
   \<and> totalExpectedBilling 21 1000 2 (resourceLeaves (exampleMonth 0 2 [30, 0])) = 21000
   \<and> resourceBills
        (SowBillingTab_month (fixedZone 0) (exampleSow ''1'' ''a'') (exampleMonth 0 2 [30, 0]))
       = [0, 21000]
   \<and> totalBillableDays
        (SowBillingTab_month (fixedZone 0) (exampleSow ''1'' ''a'') (exampleMonth 0 2 [30, 0])) = 12
   \<and> totalMonthBillingINR
        (SowBillingTab_month (fixedZone 0) (exampleSow ''1'' ''a'') (exampleMonth 0 2 [30, 0]))
       = 12000
   \<and> dailyRate (previewBilling (fixedZone 0) exampleNow (exampleSow ''1'' ''a'')
                   [exampleMonth 0 2 [30, 0]]) = 1000
   \<and> amount (previewBilling (fixedZone 0) exampleNow (exampleSow ''1'' ''a'')
                [exampleMonth 0 2 [30, 0]]) = 12000"
proof -
  have "billableDaysAfterHolidays
     (SowBillingTab_month (fixedZone 0) (exampleSow ''1'' ''a'') (exampleMonth 0 2 [30, 0])) = 21"
    "resourceBills
        (SowBillingTab_month (fixedZone 0) (exampleSow ''1'' ''a'') (exampleMonth 0 2 [30, 0]))
       = [0, 21000]"
    "totalBillableDays
        (SowBillingTab_month (fixedZone 0) (exampleSow ''1'' ''a'') (exampleMonth 0 2 [30, 0])) = 12"
    "totalMonthBillingINR
        (SowBillingTab_month (fixedZone 0) (exampleSow ''1'' ''a'') (exampleMonth 0 2 [30, 0]))
       = 12000"
    "dailyRate (previewBilling (fixedZone 0) exampleNow (exampleSow ''1'' ''a'')
                   [exampleMonth 0 2 [30, 0]]) = 1000"
    "amount (previewBilling (fixedZone 0) exampleNow (exampleSow ''1'' ''a'')
                [exampleMonth 0 2 [30, 0]]) = 12000"
    by code_simp+
  moreover have "totalExpectedBilling 21 1000 2 (resourceLeaves (exampleMonth 0 2 [30, 0])) = 21000"
    by (simp add: totalExpectedBilling_spec example_spec_total)
  ultimately show ?thesis using example_spec_total by (intro conjI)
qed

subsection \<open>Negative amounts\<close>

lemma totalMonthBillingINR_nonneg: "0 \<le> totalMonthBillingINR (SowBillingTab_month z sow month)"
  by (simp add: SowBillingTab_month_def Let_def)

lemma fold_add_nonneg:
  "(0::real) \<le> a \<Longrightarrow> \<forall>i\<in>set is. 0 \<le> g i \<Longrightarrow> 0 \<le> fold (\<lambda>i total. total + g i) is a"
  by (induction "is" arbitrary: a) simp_all

lemma totalExpectedBilling_nonneg:
  "0 \<le> rate \<Longrightarrow> 0 \<le> totalExpectedBilling eff rate n leaves"
  unfolding totalExpectedBilling_def by (rule fold_add_nonneg) simp_all

text \<open>
  Claim C2. The Monthly Billing Preview does not clamp: for the February 2024 period
  (21 working days) with one resource and 30 regional holidays, \<^verbatim>\<open>previewBilling\<close>
  reports \<open>-9\<close> billable days and the amount \<open>-9000\<close>, and the same amount for no
  holidays and 30 leave days, while the month row of the same tab clamps its total to 0
  (and the anomaly flow clamps each resource's days, see the two lemmas above).
\<close>

theorem previewBilling_negative_amount:
  "billableDays (previewBilling (fixedZone 0) exampleNow (exampleSow ''1'' ''a'')
                   [exampleMonth 30 1 [0]]) = - 9
   \<and> amount (previewBilling (fixedZone 0) exampleNow (exampleSow ''1'' ''a'')
                [exampleMonth 30 1 [0]]) = - 9000
   \<and> totalMonthBillingINR
        (SowBillingTab_month (fixedZone 0) (exampleSow ''1'' ''a'') (exampleMonth 30 1 [0])) = 0
   \<and> amount (previewBilling (fixedZone 0) exampleNow (exampleSow ''1'' ''a'')
                [exampleMonth 0 1 [30]]) = - 9000
   \<and> totalMonthBillingINR
        (SowBillingTab_month (fixedZone 0) (exampleSow ''1'' ''a'') (exampleMonth 0 1 [30])) = 0"
  by (intro conjI; code_simp)

subsection \<open>Billing periods\<close>

text \<open>
  Claim C5. For the SOW from 10 January 2024 to 28 March 2024, \<^verbatim>\<open>getBillingPeriods\<close>
  returns the periods of March, February and January, whose clipped windows are
  26 February to 25 March, 26 January to 25 February and 10 January to 25 January.
  The loop stops at the month of the end date, so the window that starts on 26 March is
  never generated: 26 March lies in the SOW's span and after the end of every window.
\<close>

theorem getBillingPeriods_gap_after_25th:
  "map_option
     (map (\<lambda>p. (civil_from_days (Day (effectiveStart (fixedZone 0) (exampleSow ''1'' ''a'') p)),
                civil_from_days (Day (effectiveEnd (fixedZone 0) (exampleSow ''1'' ''a'') p)))))
     (getBillingPeriods (fixedZone 0) (exampleSow ''1'' ''a''))
     = Some [((2024, 2, 26), (2024, 3, 25)), ((2024, 1, 26), (2024, 2, 25)),
             ((2024, 1, 10), (2024, 1, 25))]
   \<and> parseISO (fixedZone 0) (startDate (exampleSow ''1'' ''a''))
       \<le> parseISO (fixedZone 0) (2024, 3, 26)
   \<and> parseISO (fixedZone 0) (2024, 3, 26)
       \<le> parseISO (fixedZone 0) (endDate (exampleSow ''1'' ''a''))
   \<and> (case getBillingPeriods (fixedZone 0) (exampleSow ''1'' ''a'') of
         None \<Rightarrow> False
       | Some periods \<Rightarrow>
           list_all (\<lambda>p. effectiveEnd (fixedZone 0) (exampleSow ''1'' ''a'') p
                          < parseISO (fixedZone 0) (2024, 3, 26)) periods)"
  by (intro conjI; code_simp)

subsection \<open>Renewal and expiry\<close>

lemma renewal_and_expiry_formula:
  "isRenewalDue z sowEndDate now = (sowEndDate \<ge> now \<and> differenceInMonths z sowEndDate now \<le> 3)"
  "isExpired sowEndDate now = (sowEndDate < now)"
  "\<not> (isExpired sowEndDate now \<and> isRenewalDue z sowEndDate now)"
  by (auto simp: isRenewalDue_def isExpired_def isBefore_def)

text \<open>
  Claim C6. \<^verbatim>\<open>isRenewalDue\<close> flags more than the three months before the end date. Seen
  from 15 February 2024 (at 10:00, and at midnight as well), a SOW that ends on 16 May 2024,
  three months and one day away, has a whole-month difference of 3 and is flagged as due;
  so is a SOW that ends on 14 June 2024, and only from a whole-month difference of 4
  (16 June 2024) on is a SOW not flagged. A SOW ending on 14 May 2024 is due, one that
  ended on 14 February 2024 is expired and not due. A SOW whose end date is today,
  15 February 2024, is expired at 10:00, since its end date is the midnight that began
  the day.
\<close>

theorem renewal_flag_beyond_three_months:
  "differenceInMonths (fixedZone 0) (parseISO (fixedZone 0) (2024, 5, 16)) exampleNow = 3
   \<and> isRenewalDue (fixedZone 0) (parseISO (fixedZone 0) (2024, 5, 16)) exampleNow
   \<and> isRenewalDue (fixedZone 0) (parseISO (fixedZone 0) (2024, 5, 16))
        (parseISO (fixedZone 0) (2024, 2, 15))
   \<and> isRenewalDue (fixedZone 0) (parseISO (fixedZone 0) (2024, 6, 14)) exampleNow
   \<and> \<not> isRenewalDue (fixedZone 0) (parseISO (fixedZone 0) (2024, 6, 16)) exampleNow
   \<and> isRenewalDue (fixedZone 0) (parseISO (fixedZone 0) (2024, 5, 14)) exampleNow
   \<and> isExpired (parseISO (fixedZone 0) (2024, 2, 14)) exampleNow
   \<and> \<not> isRenewalDue (fixedZone 0) (parseISO (fixedZone 0) (2024, 2, 14)) exampleNow
   \<and> isExpired (parseISO (fixedZone 0) (2024, 2, 15)) exampleNow"
  by (intro conjI; code_simp)

end
